theory Spec2Isabelle
  imports Complex_Main "HOL-Library.Sublist"
begin

section \<open>Python values used by weather\_server.py\<close>

text \<open>
  A Python \<open>float\<close> is modelled by the real number it denotes, together with the three
  special values of IEEE arithmetic. Every finite double is a real, so a statement proved
  for all \<open>pyfloat\<close> holds for all doubles. Comparison follows IEEE: every comparison with
  \<open>NaN\<close> is false.
\<close>

datatype pyfloat = Finite real | PosInf | NegInf | NaN

fun fle :: "pyfloat \<Rightarrow> pyfloat \<Rightarrow> bool" where
  "fle NaN y = False"
| "fle x NaN = False"
| "fle NegInf y = True"
| "fle x PosInf = True"
| "fle (Finite a) (Finite b) = (a \<le> b)"
| "fle x y = False"

fun flt :: "pyfloat \<Rightarrow> pyfloat \<Rightarrow> bool" where
  "flt NaN y = False"
| "flt x NaN = False"
| "flt PosInf y = False"
| "flt x NegInf = False"
| "flt (Finite a) (Finite b) = (a < b)"
| "flt x y = True"

fun fabs :: "pyfloat \<Rightarrow> pyfloat" where
  "fabs (Finite a) = Finite \<bar>a\<bar>"
| "fabs PosInf = PosInf"
| "fabs NegInf = PosInf"
| "fabs NaN = NaN"

text \<open>Decimal rendering of Python's unbounded \<open>int\<close>, as \<open>str\<close> and an f-string give it.\<close>

definition digit_char :: "nat \<Rightarrow> char" where
  "digit_char d = ''0123456789'' ! d"

fun str_nat :: "nat \<Rightarrow> string" where
  "str_nat n = (if n < 10 then [digit_char n] else str_nat (n div 10) @ [digit_char (n mod 10)])"

declare str_nat.simps [simp del]

definition str_int :: "int \<Rightarrow> string" where
  "str_int i = (if i < 0 then ''-'' @ str_nat (nat (- i)) else str_nat (nat i))"

section \<open>WMO weather code mapping\<close>

definition WMO_CODES :: "(int \<times> string) list" where
  "WMO_CODES =
    [(0, ''Clear sky''),
     (1, ''Mainly clear''),
     (2, ''Partly cloudy''),
     (3, ''Overcast''),
     (45, ''Foggy''),
     (48, ''Depositing rime fog''),
     (51, ''Light drizzle''),
     (53, ''Moderate drizzle''),
     (55, ''Dense drizzle''),
     (56, ''Light freezing drizzle''),
     (57, ''Dense freezing drizzle''),
     (61, ''Slight rain''),
     (63, ''Moderate rain''),
     (65, ''Heavy rain''),
     (66, ''Light freezing rain''),
     (67, ''Heavy freezing rain''),
     (71, ''Slight snowfall''),
     (73, ''Moderate snowfall''),
     (75, ''Heavy snowfall''),
     (77, ''Snow grains''),
     (80, ''Slight rain showers''),
     (81, ''Moderate rain showers''),
     (82, ''Violent rain showers''),
     (85, ''Slight snow showers''),
     (86, ''Heavy snow showers''),
     (95, ''Thunderstorm''),
     (96, ''Thunderstorm with slight hail''),
     (99, ''Thunderstorm with heavy hail'')]"

text \<open>\<open>WMO_CODES.get(code, f"Unknown (code {code})")\<close>\<close>

definition weather_code_to_conditions :: "int \<Rightarrow> string" where
  "weather_code_to_conditions code =
     (case map_of WMO_CODES code of
        Some s \<Rightarrow> s
      | None \<Rightarrow> ''Unknown (code '' @ str_int code @ '')'')"


section \<open>JSON values, exceptions and the conversions of the Python runtime\<close>

text \<open>
  The value \<open>response.json()\<close> returns. An object is kept as the association list of the
  parsed dictionary, read by \<open>map_of\<close>.
\<close>

datatype json =
    JNull
  | JBool bool
  | JInt int
  | JFloat pyfloat
  | JStr string
  | JArr "json list"
  | JObj "(string \<times> json) list"

text \<open>
  Exceptions are values. \<open>ValueError\<close>, \<open>RuntimeError\<close>, \<open>JSONDecodeError\<close> and
  \<open>TransportError\<close> carry the text of \<open>str(exc)\<close>; \<open>HTTPStatusError\<close> carries the status
  code of its response. The exceptions the interpreter and pydantic raise carry the operation
  that failed and its operand; their text depends on the interpreter's version and is supplied by
  the runtime (\<open>interp_text\<close> below). \<open>JSONDecodeError\<close> and pydantic's \<open>ValidationError\<close> are
  subclasses of \<open>ValueError\<close>.
\<close>

datatype exn =
    ValueError string
  | JSONDecodeError string
  | ValidationError string pyfloat
  | HTTPStatusError int
  | RuntimeError string
  | TransportError string
  | KeyError json
  | IndexError json
  | TypeError string json
  | OverflowError json

fun is_ValueError :: "exn \<Rightarrow> bool" where
  "is_ValueError (ValueError m) = True"
| "is_ValueError (JSONDecodeError m) = True"
| "is_ValueError (ValidationError f v) = True"
| "is_ValueError e = False"

record pydate =
  year :: nat
  month :: nat
  day :: nat

datatype tzinfo = UTC | Offset int

record pydatetime = pydate +
  hour :: nat
  minute :: nat
  second :: nat
  microsecond :: nat
  tz :: "tzinfo option"

text \<open>
  The conversions of the standard library whose results are not fixed by this program:
  the text of a float, the text of a JSON value that is not a string, parsing of numbers and
  ISO dates (\<open>Inl\<close> holds the message of the \<open>ValueError\<close> raised), the conversion of an
  \<open>int\<close> to the nearest float (\<open>None\<close> when it overflows) and the text of the exceptions
  the interpreter raises. They are a parameter of every function below.
\<close>

record pylib =
  float_str :: "pyfloat \<Rightarrow> string"
  json_str :: "json \<Rightarrow> string"
  float_of_int :: "int \<Rightarrow> pyfloat option"
  float_of_str :: "string \<Rightarrow> string + pyfloat"
  int_of_str :: "string \<Rightarrow> string + int"
  date_fromisoformat :: "string \<Rightarrow> string + pydate"
  datetime_fromisoformat :: "string \<Rightarrow> string + pydatetime"
  interp_text :: "exn \<Rightarrow> string"

fun exn_str :: "pylib \<Rightarrow> exn \<Rightarrow> string" where
  "exn_str lib (ValueError m) = m"
| "exn_str lib (JSONDecodeError m) = m"
| "exn_str lib (RuntimeError m) = m"
| "exn_str lib (TransportError m) = m"
| "exn_str lib e = interp_text lib e"

definition and_then :: "exn + 'a \<Rightarrow> ('a \<Rightarrow> exn + 'b) \<Rightarrow> exn + 'b" where
  "and_then m f = (case m of Inl e \<Rightarrow> Inl e | Inr x \<Rightarrow> f x)"

text \<open>\<open>str(x)\<close> as an f-string applies it to a JSON value.\<close>

fun py_str :: "pylib \<Rightarrow> json \<Rightarrow> string" where
  "py_str lib (JStr s) = s"
| "py_str lib j = json_str lib j"

text \<open>Truth value of a JSON value (\<open>bool(x)\<close>).\<close>

fun truthy :: "json \<Rightarrow> bool" where
  "truthy JNull = False"
| "truthy (JBool b) = b"
| "truthy (JInt n) = (n \<noteq> 0)"
| "truthy (JFloat f) = (f \<noteq> Finite 0)"
| "truthy (JStr s) = (s \<noteq> [])"
| "truthy (JArr xs) = (xs \<noteq> [])"
| "truthy (JObj kv) = (kv \<noteq> [])"

text \<open>\<open>key in x\<close> for a string key.\<close>

fun py_contains :: "string \<Rightarrow> json \<Rightarrow> exn + bool" where
  "py_contains k (JObj kv) = Inr (map_of kv k \<noteq> None)"
| "py_contains k (JArr xs) = Inr (JStr k \<in> set xs)"
| "py_contains k (JStr s) = Inr (sublist k s)"
| "py_contains k j = Inl (TypeError ''in'' j)"

text \<open>\<open>x[key]\<close> for a string key, and \<open>x.get(key, default)\<close>.\<close>

fun subscript_str :: "json \<Rightarrow> string \<Rightarrow> exn + json" where
  "subscript_str (JObj kv) k =
     (case map_of kv k of Some v \<Rightarrow> Inr v | None \<Rightarrow> Inl (KeyError (JStr k)))"
| "subscript_str j k = Inl (TypeError ''subscript'' j)"

fun dict_get :: "json \<Rightarrow> string \<Rightarrow> json \<Rightarrow> exn + json" where
  "dict_get (JObj kv) k d = Inr (case map_of kv k of Some v \<Rightarrow> v | None \<Rightarrow> d)"
| "dict_get j k d = Inl (TypeError ''get'' j)"

text \<open>\<open>x[i]\<close> for an index \<open>i\<close> of \<open>range(n)\<close>, and \<open>len(x)\<close>.\<close>

fun subscript_int :: "json \<Rightarrow> nat \<Rightarrow> exn + json" where
  "subscript_int (JArr xs) i =
     (if i < length xs then Inr (xs ! i) else Inl (IndexError (JArr xs)))"
| "subscript_int (JStr s) i =
     (if i < length s then Inr (JStr [s ! i]) else Inl (IndexError (JStr s)))"
| "subscript_int (JObj kv) i = Inl (KeyError (JInt (int i)))"
| "subscript_int j i = Inl (TypeError ''subscript'' j)"

fun py_len :: "json \<Rightarrow> exn + nat" where
  "py_len (JArr xs) = Inr (length xs)"
| "py_len (JStr s) = Inr (length s)"
| "py_len (JObj kv) = Inr (length (remdups (map fst kv)))"
| "py_len j = Inl (TypeError ''len'' j)"

text \<open>\<open>int(x)\<close> and \<open>float(x)\<close>. \<open>int\<close> of a float truncates towards zero.\<close>

definition trunc :: "real \<Rightarrow> int" where
  "trunc r = (if 0 \<le> r then \<lfloor>r\<rfloor> else \<lceil>r\<rceil>)"

fun py_int :: "pylib \<Rightarrow> json \<Rightarrow> exn + int" where
  "py_int lib (JInt n) = Inr n"
| "py_int lib (JBool b) = Inr (if b then 1 else 0)"
| "py_int lib (JFloat (Finite r)) = Inr (trunc r)"
| "py_int lib (JFloat NaN) = Inl (ValueError ''cannot convert float NaN to integer'')"
| "py_int lib (JFloat f) = Inl (OverflowError (JFloat f))"
| "py_int lib (JStr s) =
     (case int_of_str lib s of Inl m \<Rightarrow> Inl (ValueError m) | Inr n \<Rightarrow> Inr n)"
| "py_int lib j = Inl (TypeError ''int'' j)"

fun py_float :: "pylib \<Rightarrow> json \<Rightarrow> exn + pyfloat" where
  "py_float lib (JFloat f) = Inr f"
| "py_float lib (JInt n) =
     (case float_of_int lib n of None \<Rightarrow> Inl (OverflowError (JInt n)) | Some f \<Rightarrow> Inr f)"
| "py_float lib (JBool b) = Inr (Finite (if b then 1 else 0))"
| "py_float lib (JStr s) =
     (case float_of_str lib s of Inl m \<Rightarrow> Inl (ValueError m) | Inr f \<Rightarrow> Inr f)"
| "py_float lib j = Inl (TypeError ''float'' j)"

text \<open>\<open>date.fromisoformat(x)\<close> and \<open>datetime.fromisoformat(x)\<close>: the argument must be a string.\<close>

fun py_date :: "pylib \<Rightarrow> json \<Rightarrow> exn + pydate" where
  "py_date lib (JStr s) =
     (case date_fromisoformat lib s of Inl m \<Rightarrow> Inl (ValueError m) | Inr d \<Rightarrow> Inr d)"
| "py_date lib j = Inl (TypeError ''fromisoformat'' j)"

fun py_datetime :: "pylib \<Rightarrow> json \<Rightarrow> exn + pydatetime" where
  "py_datetime lib (JStr s) =
     (case datetime_fromisoformat lib s of Inl m \<Rightarrow> Inl (ValueError m) | Inr d \<Rightarrow> Inr d)"
| "py_datetime lib j = Inl (TypeError ''fromisoformat'' j)"

text \<open>\<open>str(d)\<close> of a date and \<open>dt.isoformat()\<close> of a datetime.\<close>

definition zpad :: "nat \<Rightarrow> nat \<Rightarrow> string" where
  "zpad w n = replicate (w - length (str_nat n)) (CHR ''0'') @ str_nat n"

definition str_date :: "'a pydate_scheme \<Rightarrow> string" where
  "str_date d = zpad 4 (year d) @ ''-'' @ zpad 2 (month d) @ ''-'' @ zpad 2 (day d)"

fun tz_suffix :: "tzinfo option \<Rightarrow> string" where
  "tz_suffix None = []"
| "tz_suffix (Some UTC) = ''+00:00''"
| "tz_suffix (Some (Offset m)) =
     (if m < 0 then ''-'' else ''+'') @ zpad 2 (nat \<bar>m\<bar> div 60) @ '':'' @ zpad 2 (nat \<bar>m\<bar> mod 60)"

definition isoformat :: "pydatetime \<Rightarrow> string" where
  "isoformat t =
     str_date t @ ''T'' @ zpad 2 (hour t) @ '':'' @ zpad 2 (minute t) @ '':'' @ zpad 2 (second t)
     @ (if microsecond t = 0 then [] else ''.'' @ zpad 6 (microsecond t))
     @ tz_suffix (tz t)"

text \<open>\<open>sep.join(lines)\<close>\<close>

fun join :: "string \<Rightarrow> string list \<Rightarrow> string" where
  "join sep [] = []"
| "join sep [x] = x"
| "join sep (x # y # ys) = x @ sep @ join sep (y # ys)"

text \<open>
  The two characters of the program's format strings outside ASCII, as their UTF-8 bytes:
  the degree sign U+00B0 and the en dash U+2013.
\<close>

definition degree_sign :: string where
  "degree_sign = [CHR 0xC2, CHR 0xB0]"

definition en_dash :: string where
  "en_dash = [CHR 0xE2, CHR 0x80, CHR 0x93]"

definition newline :: string where
  "newline = [CHR 0x0A]"


section \<open>Data models\<close>

text \<open>
  \<open>WeatherLocation\<close> declares \<open>latitude: float = Field(..., ge=-90, le=90)\<close> and
  \<open>longitude: float = Field(..., ge=-180, le=180)\<close>. Constructing the model validates the
  fields: \<open>WeatherLocation_new\<close> is the constructor, and the exception it returns names the
  first field that fails.
\<close>

record WeatherLocation =
  latitude :: pyfloat
  longitude :: pyfloat

definition WeatherLocation_new :: "pyfloat \<Rightarrow> pyfloat \<Rightarrow> exn + WeatherLocation" where
  "WeatherLocation_new lat lon =
     (if \<not> (fle (Finite (- 90)) lat \<and> fle lat (Finite 90))
      then Inl (ValidationError ''latitude'' lat)
      else if \<not> (fle (Finite (- 180)) lon \<and> fle lon (Finite 180))
      then Inl (ValidationError ''longitude'' lon)
      else Inr \<lparr>latitude = lat, longitude = lon\<rparr>)"

text \<open>
  The fields \<open>weather_code\<close> and \<open>conditions\<close> of \<open>CurrentWeather\<close> are named
  \<open>current_weather_code\<close> and \<open>current_conditions\<close> here, apart from those of
  \<open>DailyForecast\<close>.
\<close>

record CurrentWeather =
  temperature :: pyfloat
  wind_speed :: pyfloat
  current_weather_code :: int
  current_conditions :: string
  timestamp :: pydatetime

record DailyForecast =
  forecast_date :: pydate
  temperature_min :: pyfloat
  temperature_max :: pyfloat
  precipitation :: pyfloat
  weather_code :: int
  conditions :: string

record ForecastResponse =
  location :: WeatherLocation
  forecasts :: "DailyForecast list"

section \<open>Open-Meteo client\<close>

definition OPEN_METEO_BASE :: string where
  "OPEN_METEO_BASE = ''https://api.open-meteo.com/v1/forecast''"

definition MAX_RETRIES :: nat where
  "MAX_RETRIES = 3"

definition RETRY_BACKOFF :: real where
  "RETRY_BACKOFF = 0.5"

text \<open>
  The network. A request is what \<open>self._client.get(OPEN_METEO_BASE, params=params)\<close> sends,
  with the timeout of the client that sends it. The upstream answers a request, knowing the
  requests sent before it, with a transport failure (the text of its exception) or a response:
  a status code and a body that \<open>response.json()\<close> parses or rejects. The state threaded
  through the client is the list of the requests sent so far.
\<close>

datatype pval = PFloat pyfloat | PInt int | PStr string

record request =
  req_url :: string
  req_params :: "(string \<times> pval) list"
  req_timeout :: real

datatype body = Malformed string | Parsed json

datatype http_result = TransportFailure string | Response int body

type_synonym upstream = "request list \<Rightarrow> request \<Rightarrow> http_result"

text \<open>\<open>httpx.AsyncClient(timeout=httpx.Timeout(10.0))\<close>\<close>

record OpenMeteoClient =
  timeout :: real

definition OpenMeteoClient_init :: OpenMeteoClient where
  "OpenMeteoClient_init = \<lparr>timeout = 10\<rparr>"

text \<open>\<open>response.raise_for_status()\<close> returns for the status codes 200 to 299 and raises for
  every other.\<close>

definition is_success :: "int \<Rightarrow> bool" where
  "is_success status = (200 \<le> status \<and> status \<le> 299)"

definition validate_coordinates :: "pylib \<Rightarrow> pyfloat \<Rightarrow> pyfloat \<Rightarrow> exn + unit" where
  "validate_coordinates lib lat lon =
     (if \<not> (fle (Finite (- 90)) lat \<and> fle lat (Finite 90))
      then Inl (ValueError (''Latitude must be between -90 and 90, got '' @ float_str lib lat))
      else if \<not> (fle (Finite (- 180)) lon \<and> fle lon (Finite 180))
      then Inl (ValueError (''Longitude must be between -180 and 180, got '' @ float_str lib lon))
      else Inr ())"

text \<open>\<open>OpenMeteoClient._get\<close>\<close>

definition client_get ::
  "pylib \<Rightarrow> upstream \<Rightarrow> OpenMeteoClient \<Rightarrow> (string \<times> pval) list \<Rightarrow> request list
     \<Rightarrow> (exn + json) \<times> request list" where
  "client_get lib up self params sent =
     (let req = \<lparr>req_url = OPEN_METEO_BASE, req_params = params, req_timeout = timeout self\<rparr>
      in
      ((case up sent req of
          TransportFailure m \<Rightarrow> Inl (TransportError m)
        | Response status b \<Rightarrow>
            if \<not> is_success status then Inl (HTTPStatusError status)
            else
              (case b of
                 Malformed m \<Rightarrow> Inl (JSONDecodeError m)
               | Parsed data \<Rightarrow>
                   and_then (py_contains ''error'' data) (\<lambda>present.
                     if \<not> present then Inr data
                     else and_then (subscript_str data ''error'') (\<lambda>err.
                       if \<not> truthy err then Inr data
                       else and_then (dict_get data ''reason'' (JStr ''unknown'')) (\<lambda>reason.
                         Inl (RuntimeError (''Open-Meteo API error: '' @ py_str lib reason))))))),
       sent @ [req]))"

text \<open>\<open>OpenMeteoClient.get_current_weather\<close>\<close>

definition current_params :: "pyfloat \<Rightarrow> pyfloat \<Rightarrow> (string \<times> pval) list" where
  "current_params lat lon =
     [(''latitude'', PFloat lat),
      (''longitude'', PFloat lon),
      (''current'', PStr ''temperature_2m,wind_speed_10m,weather_code''),
      (''timezone'', PStr ''UTC'')]"

definition client_get_current_weather ::
  "pylib \<Rightarrow> upstream \<Rightarrow> OpenMeteoClient \<Rightarrow> pyfloat \<Rightarrow> pyfloat \<Rightarrow> request list
     \<Rightarrow> (exn + CurrentWeather) \<times> request list" where
  "client_get_current_weather lib up self lat lon sent =
     (case validate_coordinates lib lat lon of
        Inl e \<Rightarrow> (Inl e, sent)
      | Inr u \<Rightarrow>
          (case client_get lib up self (current_params lat lon) sent of
             (Inl e, sent') \<Rightarrow> (Inl e, sent')
           | (Inr data, sent') \<Rightarrow>
               (and_then (subscript_str data ''current'') (\<lambda>current.
                and_then (and_then (subscript_str current ''weather_code'') (py_int lib)) (\<lambda>code.
                and_then (and_then (subscript_str current ''temperature_2m'') (py_float lib)) (\<lambda>t.
                and_then (and_then (subscript_str current ''wind_speed_10m'') (py_float lib)) (\<lambda>w.
                and_then (and_then (subscript_str current ''time'') (py_datetime lib)) (\<lambda>ts.
                  Inr \<lparr>temperature = t,
                       wind_speed = w,
                       current_weather_code = code,
                       current_conditions = weather_code_to_conditions code,
                       timestamp = ts\<lparr>tz := Some UTC\<rparr>\<rparr>))))),
                sent')))"

text \<open>\<open>OpenMeteoClient.get_forecast\<close>. \<open>daily_forecast_at\<close> is the body of its loop for the
  index \<open>i\<close>, \<open>forecast_loop\<close> the loop over \<open>range(len(daily["time"]))\<close>.\<close>

definition forecast_params :: "pyfloat \<Rightarrow> pyfloat \<Rightarrow> int \<Rightarrow> (string \<times> pval) list" where
  "forecast_params lat lon days =
     [(''latitude'', PFloat lat),
      (''longitude'', PFloat lon),
      (''daily'', PStr ''temperature_2m_max,temperature_2m_min,precipitation_sum,weather_code''),
      (''timezone'', PStr ''UTC''),
      (''forecast_days'', PInt days)]"

definition daily_item :: "json \<Rightarrow> string \<Rightarrow> nat \<Rightarrow> exn + json" where
  "daily_item daily k i = and_then (subscript_str daily k) (\<lambda>a. subscript_int a i)"

definition daily_forecast_at :: "pylib \<Rightarrow> json \<Rightarrow> nat \<Rightarrow> exn + DailyForecast" where
  "daily_forecast_at lib daily i =
     and_then (and_then (daily_item daily ''weather_code'' i) (py_int lib)) (\<lambda>code.
     and_then (and_then (daily_item daily ''time'' i) (py_date lib)) (\<lambda>d.
     and_then (and_then (daily_item daily ''temperature_2m_min'' i) (py_float lib)) (\<lambda>tmin.
     and_then (and_then (daily_item daily ''temperature_2m_max'' i) (py_float lib)) (\<lambda>tmax.
     and_then (and_then (daily_item daily ''precipitation_sum'' i) (py_float lib)) (\<lambda>p.
       Inr \<lparr>forecast_date = d,
            temperature_min = tmin,
            temperature_max = tmax,
            precipitation = p,
            weather_code = code,
            conditions = weather_code_to_conditions code\<rparr>)))))"

fun forecast_loop ::
  "pylib \<Rightarrow> json \<Rightarrow> nat list \<Rightarrow> DailyForecast list \<Rightarrow> exn + DailyForecast list" where
  "forecast_loop lib daily [] acc = Inr acc"
| "forecast_loop lib daily (i # rest) acc =
     (case daily_forecast_at lib daily i of
        Inl e \<Rightarrow> Inl e
      | Inr f \<Rightarrow> forecast_loop lib daily rest (acc @ [f]))"

definition client_get_forecast ::
  "pylib \<Rightarrow> upstream \<Rightarrow> OpenMeteoClient \<Rightarrow> pyfloat \<Rightarrow> pyfloat \<Rightarrow> int \<Rightarrow> request list
     \<Rightarrow> (exn + ForecastResponse) \<times> request list" where
  "client_get_forecast lib up self lat lon days sent =
     (case validate_coordinates lib lat lon of
        Inl e \<Rightarrow> (Inl e, sent)
      | Inr u \<Rightarrow>
          if \<not> (1 \<le> days \<and> days \<le> 16)
          then (Inl (ValueError (''Days must be between 1 and 16, got '' @ str_int days)), sent)
          else
            (case client_get lib up self (forecast_params lat lon days) sent of
               (Inl e, sent') \<Rightarrow> (Inl e, sent')
             | (Inr data, sent') \<Rightarrow>
                 (and_then (subscript_str data ''daily'') (\<lambda>daily.
                  and_then (subscript_str daily ''time'') (\<lambda>times.
                  and_then (py_len times) (\<lambda>n.
                  and_then (forecast_loop lib daily [0..<n] []) (\<lambda>fs.
                  and_then (WeatherLocation_new lat lon) (\<lambda>loc.
                    Inr \<lparr>location = loc, forecasts = fs\<rparr>))))),
                  sent')))"

section \<open>Tool handlers\<close>

text \<open>The module's \<open>_client = OpenMeteoClient()\<close>.\<close>

definition module_client :: OpenMeteoClient where
  "module_client = OpenMeteoClient_init"

text \<open>The tool \<open>get_current_weather\<close>. The \<open>except\<close> clauses are tried in the order of the
  source: \<open>ValueError\<close>, \<open>httpx.HTTPStatusError\<close>, \<open>Exception\<close>.\<close>

definition get_current_weather ::
  "pylib \<Rightarrow> upstream \<Rightarrow> pyfloat \<Rightarrow> pyfloat \<Rightarrow> request list \<Rightarrow> string \<times> request list" where
  "get_current_weather lib up lat lon sent =
     (case client_get_current_weather lib up module_client lat lon sent of
        (Inr weather, sent') \<Rightarrow>
          (''Current weather at ('' @ float_str lib lat @ '', '' @ float_str lib lon @ ''):''
             @ newline
           @ ''  Temperature: '' @ float_str lib (temperature weather) @ degree_sign @ ''C''
             @ newline
           @ ''  Wind Speed: '' @ float_str lib (wind_speed weather) @ '' km/h'' @ newline
           @ ''  Conditions: '' @ current_conditions weather
             @ '' (WMO code '' @ str_int (current_weather_code weather) @ '')'' @ newline
           @ ''  Observed at: '' @ isoformat (timestamp weather),
           sent')
      | (Inl e, sent') \<Rightarrow>
          (if is_ValueError e then ''Error: '' @ exn_str lib e
           else
             (case e of
                HTTPStatusError status \<Rightarrow>
                  ''Error: Failed to fetch weather data '' @ en_dash @ '' '' @ str_int status
              | _ \<Rightarrow> ''Error: An unexpected error occurred '' @ en_dash @ '' '' @ exn_str lib e),
           sent'))"

text \<open>The tool \<open>get_forecast\<close>. \<open>forecast_line\<close> is the line its loop appends for a day.\<close>

definition forecast_line :: "pylib \<Rightarrow> DailyForecast \<Rightarrow> string" where
  "forecast_line lib d =
     ''  '' @ str_date (forecast_date d) @ '': '' @ conditions d @ '' ''
     @ ''(WMO '' @ str_int (weather_code d) @ ''), ''
     @ float_str lib (temperature_min d) @ degree_sign @ ''C '' @ en_dash @ '' ''
     @ float_str lib (temperature_max d) @ degree_sign @ ''C, ''
     @ ''Precipitation: '' @ float_str lib (precipitation d) @ '' mm''"

definition forecast_header :: "pylib \<Rightarrow> pyfloat \<Rightarrow> pyfloat \<Rightarrow> int \<Rightarrow> string" where
  "forecast_header lib lat lon days =
     ''Weather forecast for ('' @ float_str lib lat @ '', '' @ float_str lib lon @ '') ''
     @ en_dash @ '' '' @ str_int days @ '' day(s):'' @ newline"

definition get_forecast ::
  "pylib \<Rightarrow> upstream \<Rightarrow> pyfloat \<Rightarrow> pyfloat \<Rightarrow> int \<Rightarrow> request list \<Rightarrow> string \<times> request list" where
  "get_forecast lib up lat lon days sent =
     (case client_get_forecast lib up module_client lat lon days sent of
        (Inr forecast, sent') \<Rightarrow>
          (join newline
             (forecast_header lib lat lon days # map (forecast_line lib) (forecasts forecast)),
           sent')
      | (Inl e, sent') \<Rightarrow>
          (if is_ValueError e then ''Error: '' @ exn_str lib e
           else
             (case e of
                HTTPStatusError status \<Rightarrow>
                  ''Error: Failed to fetch forecast '' @ en_dash @ '' '' @ str_int status
              | _ \<Rightarrow> ''Error: An unexpected error occurred '' @ en_dash @ '' '' @ exn_str lib e),
           sent'))"


section \<open>The fixtures of the test suite\<close>

text \<open>
  A runtime to evaluate the program on the responses of tests/test\_weather\_tools.py. It
  renders a float by its decimal expansion (the text CPython gives a float written with few
  decimals), reads the ISO forms \<open>YYYY-MM-DD\<close> and \<open>YYYY-MM-DDTHH:MM[:SS]\<close>, converts an
  \<open>int\<close> to the float of the same value, and takes no string for a number (the fixtures hold
  numbers as numbers). The theorems below hold for every runtime; this one serves where a
  statement is evaluated.
\<close>

fun frac_digits :: "nat \<Rightarrow> real \<Rightarrow> string" where
  "frac_digits 0 x = []"
| "frac_digits (Suc k) x =
     (let d = nat \<lfloor>10 * x\<rfloor>; r = 10 * x - real d
      in digit_char d # (if r = 0 then [] else frac_digits k r))"

fun decimal_str :: "pyfloat \<Rightarrow> string" where
  "decimal_str (Finite r) =
     (if r < 0 then ''-'' else []) @ str_nat (nat \<lfloor>\<bar>r\<bar>\<rfloor>) @ ''.''
     @ frac_digits 17 (\<bar>r\<bar> - real (nat \<lfloor>\<bar>r\<bar>\<rfloor>))"
| "decimal_str PosInf = ''inf''"
| "decimal_str NegInf = ''-inf''"
| "decimal_str NaN = ''nan''"

fun scalar_str :: "json \<Rightarrow> string" where
  "scalar_str JNull = ''None''"
| "scalar_str (JBool b) = (if b then ''True'' else ''False'')"
| "scalar_str (JInt n) = str_int n"
| "scalar_str (JFloat f) = decimal_str f"
| "scalar_str (JStr s) = s"
| "scalar_str (JArr xs) = (if xs = [] then ''[]'' else ''[...]'')"
| "scalar_str (JObj kv) = (if kv = [] then ''{}'' else ''{...}'')"

definition digits_nat :: "string \<Rightarrow> nat option" where
  "digits_nat s =
     (if s \<noteq> [] \<and> list_all (\<lambda>c. c \<in> set ''0123456789'') s
      then Some (foldl (\<lambda>n c. 10 * n + (of_char c - 48)) 0 s)
      else None)"

definition days_in_month :: "nat \<Rightarrow> nat \<Rightarrow> nat" where
  "days_in_month y m =
     (if m = 2 then
        (if y mod 400 = 0 then 29 else if y mod 100 = 0 then 28
         else if y mod 4 = 0 then 29 else 28)
      else if m \<in> {4, 6, 9, 11} then 30 else 31)"

definition iso_date :: "string \<Rightarrow> string + pydate" where
  "iso_date s =
     (if length s = 10 \<and> s ! 4 = CHR ''-'' \<and> s ! 7 = CHR ''-'' then
        (case (digits_nat (take 4 s), digits_nat (take 2 (drop 5 s)), digits_nat (drop 8 s)) of
           (Some y, Some m, Some d) \<Rightarrow>
             if 1 \<le> y \<and> 1 \<le> m \<and> m \<le> 12 \<and> 1 \<le> d \<and> d \<le> days_in_month y m
             then Inr \<lparr>year = y, month = m, day = d\<rparr>
             else Inl (''Invalid isoformat string: '' @ s)
         | _ \<Rightarrow> Inl (''Invalid isoformat string: '' @ s))
      else Inl (''Invalid isoformat string: '' @ s))"

definition iso_time :: "string \<Rightarrow> (nat \<times> nat \<times> nat) option" where
  "iso_time s =
     (if length s = 5 \<and> s ! 2 = CHR '':'' then
        (case (digits_nat (take 2 s), digits_nat (drop 3 s)) of
           (Some h, Some m) \<Rightarrow> if h < 24 \<and> m < 60 then Some (h, m, 0) else None
         | _ \<Rightarrow> None)
      else if length s = 8 \<and> s ! 2 = CHR '':'' \<and> s ! 5 = CHR '':'' then
        (case (digits_nat (take 2 s), digits_nat (take 2 (drop 3 s)), digits_nat (drop 6 s)) of
           (Some h, Some m, Some sec) \<Rightarrow>
             if h < 24 \<and> m < 60 \<and> sec < 60 then Some (h, m, sec) else None
         | _ \<Rightarrow> None)
      else None)"

definition iso_datetime :: "string \<Rightarrow> string + pydatetime" where
  "iso_datetime s =
     (case iso_date (take 10 s) of
        Inl m \<Rightarrow> Inl (''Invalid isoformat string: '' @ s)
      | Inr d \<Rightarrow>
          if length s = 10
          then Inr \<lparr>year = year d, month = month d, day = day d,
                    hour = 0, minute = 0, second = 0, microsecond = 0, tz = None\<rparr>
          else if s ! 10 = CHR ''T'' then
            (case iso_time (drop 11 s) of
               Some (h, m, sec) \<Rightarrow>
                 Inr \<lparr>year = year d, month = month d, day = day d,
                      hour = h, minute = m, second = sec, microsecond = 0, tz = None\<rparr>
             | None \<Rightarrow> Inl (''Invalid isoformat string: '' @ s))
          else Inl (''Invalid isoformat string: '' @ s))"

fun kind_text :: "exn \<Rightarrow> string" where
  "kind_text (KeyError k) = scalar_str k"
| "kind_text (IndexError j) = ''index out of range''"
| "kind_text (TypeError opn j) = opn"
| "kind_text (OverflowError j) = ''cannot convert''"
| "kind_text (ValidationError field v) = field"
| "kind_text e = []"

definition test_runtime :: pylib where
  "test_runtime =
     \<lparr>float_str = decimal_str,
      json_str = scalar_str,
      float_of_int = (\<lambda>n. Some (Finite (real_of_int n))),
      float_of_str = (\<lambda>s. Inl (''could not convert string to float: '' @ s)),
      int_of_str = (\<lambda>s. Inl (''invalid literal for int() with base 10: '' @ s)),
      date_fromisoformat = iso_date,
      datetime_fromisoformat = iso_datetime,
      interp_text = kind_text\<rparr>"

text \<open>\<open>CURRENT_WEATHER_RESPONSE\<close> and \<open>FORECAST_RESPONSE\<close> of the test suite.\<close>

definition CURRENT_WEATHER_RESPONSE :: json where
  "CURRENT_WEATHER_RESPONSE =
     JObj [(''current'',
            JObj [(''time'', JStr ''2025-06-15T12:00''),
                  (''temperature_2m'', JFloat (Finite 22.5)),
                  (''wind_speed_10m'', JFloat (Finite 15.3)),
                  (''weather_code'', JInt 2)])]"

definition FORECAST_RESPONSE :: json where
  "FORECAST_RESPONSE =
     JObj [(''daily'',
            JObj [(''time'', JArr [JStr ''2025-06-15'', JStr ''2025-06-16'', JStr ''2025-06-17'']),
                  (''temperature_2m_max'',
                     JArr [JFloat (Finite 25), JFloat (Finite 27), JFloat (Finite 23)]),
                  (''temperature_2m_min'',
                     JArr [JFloat (Finite 15), JFloat (Finite 17), JFloat (Finite 14)]),
                  (''precipitation_sum'',
                     JArr [JFloat (Finite 0), JFloat (Finite 2.5), JFloat (Finite 0.1)]),
                  (''weather_code'', JArr [JInt 0, JInt 63, JInt 1])])]"

text \<open>An upstream that answers every request with the same result, as the mocked route of
  the test suite does.\<close>

definition always :: "http_result \<Rightarrow> upstream" where
  "always r = (\<lambda>sent req. r)"


text \<open>The forecasts the client builds from \<open>FORECAST_RESPONSE\<close>.\<close>

definition fixture_days :: "DailyForecast list" where
  "fixture_days =
     [\<lparr>forecast_date = \<lparr>year = 2025, month = 6, day = 15\<rparr>,
       temperature_min = Finite 15, temperature_max = Finite 25,
       precipitation = Finite 0, weather_code = 0, conditions = ''Clear sky''\<rparr>,
      \<lparr>forecast_date = \<lparr>year = 2025, month = 6, day = 16\<rparr>,
       temperature_min = Finite 17, temperature_max = Finite 27,
       precipitation = Finite 2.5, weather_code = 63, conditions = ''Moderate rain''\<rparr>,
      \<lparr>forecast_date = \<lparr>year = 2025, month = 6, day = 17\<rparr>,
       temperature_min = Finite 14, temperature_max = Finite 23,
       precipitation = Finite 0.1, weather_code = 1, conditions = ''Mainly clear''\<rparr>]"


section \<open>Properties\<close>


lemma str_nat_nonempty: "str_nat n \<noteq> []"
  by (subst str_nat.simps) simp






lemma outside_latitude: "flt (Finite 90) (fabs lat) \<Longrightarrow> \<not> (fle (Finite (- 90)) lat \<and> fle lat (Finite 90))"
  by (cases lat) auto

lemma outside_longitude:
  "flt (Finite 180) (fabs lon) \<Longrightarrow> \<not> (fle (Finite (- 180)) lon \<and> fle lon (Finite 180))"
  by (cases lon) auto

lemma validate_coordinates_cases:
  "validate_coordinates lib lat lon = Inr () \<or>
   (\<exists>m. validate_coordinates lib lat lon = Inl (ValueError m))"
  by (simp add: validate_coordinates_def)

lemma validate_coordinates_Inr:
  "validate_coordinates lib lat lon = Inr u \<longleftrightarrow>
   fle (Finite (- 90)) lat \<and> fle lat (Finite 90) \<and> fle (Finite (- 180)) lon \<and> fle lon (Finite 180)"
  by (auto simp: validate_coordinates_def)

lemma validate_coordinates_Inl:
  "\<not> (fle (Finite (- 90)) lat \<and> fle lat (Finite 90) \<and> fle (Finite (- 180)) lon \<and> fle lon (Finite 180))
   \<Longrightarrow> \<exists>m. validate_coordinates lib lat lon = Inl (ValueError m)"
  by (auto simp: validate_coordinates_def)

lemma current_weather_invalid:
  "validate_coordinates lib lat lon = Inl e \<Longrightarrow>
   client_get_current_weather lib up self lat lon sent = (Inl e, sent)"
  by (simp add: client_get_current_weather_def)

lemma forecast_invalid:
  "validate_coordinates lib lat lon = Inl e \<Longrightarrow>
   client_get_forecast lib up self lat lon days sent = (Inl e, sent)"
  by (simp add: client_get_forecast_def)

lemma forecast_invalid_days:
  "validate_coordinates lib lat lon = Inr u \<Longrightarrow> \<not> (1 \<le> days \<and> days \<le> 16) \<Longrightarrow>
   client_get_forecast lib up self lat lon days sent =
     (Inl (ValueError (''Days must be between 1 and 16, got '' @ str_int days)), sent)"
  by (simp add: client_get_forecast_def)

lemma snd_client_get:
  "snd (client_get lib up self params sent) =
   sent @ [\<lparr>req_url = OPEN_METEO_BASE, req_params = params, req_timeout = timeout self\<rparr>]"
  by (simp add: client_get_def Let_def)

lemma snd_current_weather_valid:
  "validate_coordinates lib lat lon = Inr u \<Longrightarrow>
   snd (client_get_current_weather lib up self lat lon sent) =
   sent @ [\<lparr>req_url = OPEN_METEO_BASE, req_params = current_params lat lon,
            req_timeout = timeout self\<rparr>]"
  using snd_client_get [of lib up self "current_params lat lon" sent]
  by (auto simp: client_get_current_weather_def split: prod.splits sum.splits)

lemma snd_forecast_valid:
  "validate_coordinates lib lat lon = Inr u \<Longrightarrow> 1 \<le> days \<Longrightarrow> days \<le> 16 \<Longrightarrow>
   snd (client_get_forecast lib up self lat lon days sent) =
   sent @ [\<lparr>req_url = OPEN_METEO_BASE, req_params = forecast_params lat lon days,
            req_timeout = timeout self\<rparr>]"
  using snd_client_get [of lib up self "forecast_params lat lon days" sent]
  by (auto simp: client_get_forecast_def split: prod.splits sum.splits)

text \<open>
  Claim C2. For every latitude and longitude with \<open>|lat| > 90\<close> or \<open>|lon| > 180\<close>, both
  client methods fail with a \<open>ValueError\<close> and the list of requests sent is unchanged: no
  request was attempted. Conversely, every latitude in \<open>[-90, 90]\<close> and longitude in
  \<open>[-180, 180]\<close>, bounds included, passes the validation.
\<close>

theorem invalid_coordinates_rejected:
  "(flt (Finite 90) (fabs lat) \<or> flt (Finite 180) (fabs lon) \<longrightarrow>
      (\<exists>m. client_get_current_weather lib up self lat lon sent = (Inl (ValueError m), sent))
      \<and> (\<exists>m. client_get_forecast lib up self lat lon days sent = (Inl (ValueError m), sent)))
   \<and> (fle (Finite (- 90)) lat \<and> fle lat (Finite 90)
      \<and> fle (Finite (- 180)) lon \<and> fle lon (Finite 180) \<longrightarrow>
      validate_coordinates lib lat lon = Inr ())"
proof (intro conjI impI)
  assume out: "flt (Finite 90) (fabs lat) \<or> flt (Finite 180) (fabs lon)"
  then have "\<not> (fle (Finite (- 90)) lat \<and> fle lat (Finite 90)
      \<and> fle (Finite (- 180)) lon \<and> fle lon (Finite 180))"
    using outside_latitude outside_longitude by blast
  then obtain m where m: "validate_coordinates lib lat lon = Inl (ValueError m)"
    using validate_coordinates_Inl by blast
  show "\<exists>m. client_get_current_weather lib up self lat lon sent = (Inl (ValueError m), sent)"
    using current_weather_invalid [OF m] by blast
  show "\<exists>m. client_get_forecast lib up self lat lon days sent = (Inl (ValueError m), sent)"
    using forecast_invalid [OF m] by blast
next
  assume "fle (Finite (- 90)) lat \<and> fle lat (Finite 90)
      \<and> fle (Finite (- 180)) lon \<and> fle lon (Finite 180)"
  then show "validate_coordinates lib lat lon = Inr ()"
    by (simp add: validate_coordinates_Inr)
qed

text \<open>Latitude -91 and longitude 181 are rejected with no request sent; the corners
  \<open>(90, -180)\<close> and \<open>(-90, 180)\<close> pass.\<close>

theorem invalid_coordinates_rejected_witness:
  "flt (Finite 90) (fabs (Finite (- 91)))
   \<and> (\<exists>m. client_get_current_weather test_runtime (always (Response 200 (Parsed CURRENT_WEATHER_RESPONSE)))
          module_client (Finite (- 91)) (Finite 0) [] = (Inl (ValueError m), []))
   \<and> (\<exists>m. client_get_forecast test_runtime (always (Response 200 (Parsed FORECAST_RESPONSE)))
          module_client (Finite 0) (Finite 181) 7 [] = (Inl (ValueError m), []))
   \<and> validate_coordinates test_runtime (Finite 90) (Finite (- 180)) = Inr ()
   \<and> validate_coordinates test_runtime (Finite (- 90)) (Finite 180) = Inr ()"
  using invalid_coordinates_rejected [of "Finite (- 91)" "Finite 0" test_runtime
      "always (Response 200 (Parsed CURRENT_WEATHER_RESPONSE))" module_client "[]" 7]
    invalid_coordinates_rejected [of "Finite 0" "Finite 181" test_runtime
      "always (Response 200 (Parsed FORECAST_RESPONSE))" module_client "[]" 7]
    invalid_coordinates_rejected [of "Finite 90" "Finite (- 180)" test_runtime]
    invalid_coordinates_rejected [of "Finite (- 90)" "Finite 180" test_runtime]
  by simp

text \<open>
  Claim C3. For every integer \<open>days\<close> outside \<open>[1, 16]\<close> the client method
  \<open>get_forecast\<close> fails with a \<open>ValueError\<close> and sends no request; for every \<open>days\<close> in
  \<open>[1, 16]\<close> (and valid coordinates) the check passes: the request for \<open>days\<close> days is
  sent.
\<close>

theorem forecast_days_checked:
  "(\<not> (1 \<le> days \<and> days \<le> 16) \<longrightarrow>
      (\<exists>m. client_get_forecast lib up self lat lon days sent = (Inl (ValueError m), sent)))
   \<and> (1 \<le> days \<and> days \<le> 16 \<and> validate_coordinates lib lat lon = Inr () \<longrightarrow>
      snd (client_get_forecast lib up self lat lon days sent) =
        sent @ [\<lparr>req_url = OPEN_METEO_BASE, req_params = forecast_params lat lon days,
                 req_timeout = timeout self\<rparr>])"
proof (intro conjI impI)
  assume bad: "\<not> (1 \<le> days \<and> days \<le> 16)"
  from validate_coordinates_cases [of lib lat lon]
  show "\<exists>m. client_get_forecast lib up self lat lon days sent = (Inl (ValueError m), sent)"
  proof
    assume "validate_coordinates lib lat lon = Inr ()"
    from forecast_invalid_days [OF this bad] show ?thesis by blast
  next
    assume "\<exists>m. validate_coordinates lib lat lon = Inl (ValueError m)"
    then obtain m where "validate_coordinates lib lat lon = Inl (ValueError m)" ..
    from forecast_invalid [OF this] show ?thesis by blast
  qed
next
  assume "1 \<le> days \<and> days \<le> 16 \<and> validate_coordinates lib lat lon = Inr ()"
  then show "snd (client_get_forecast lib up self lat lon days sent) =
        sent @ [\<lparr>req_url = OPEN_METEO_BASE, req_params = forecast_params lat lon days,
                 req_timeout = timeout self\<rparr>]"
    using snd_forecast_valid by blast
qed

text \<open>The days 0 and 17 are rejected; with 1 and with 16 one request goes out.\<close>

theorem forecast_days_checked_witness:
  "(\<exists>m. client_get_forecast test_runtime (always (Response 200 (Parsed FORECAST_RESPONSE)))
          module_client (Finite 0) (Finite 0) 0 [] = (Inl (ValueError m), []))
   \<and> (\<exists>m. client_get_forecast test_runtime (always (Response 200 (Parsed FORECAST_RESPONSE)))
          module_client (Finite 0) (Finite 0) 17 [] = (Inl (ValueError m), []))
   \<and> length (snd (client_get_forecast test_runtime (always (Response 200 (Parsed FORECAST_RESPONSE)))
          module_client (Finite 0) (Finite 0) 1 [])) = 1
   \<and> length (snd (client_get_forecast test_runtime (always (Response 200 (Parsed FORECAST_RESPONSE)))
          module_client (Finite 0) (Finite 0) 16 [])) = 1"
proof -
  have v: "validate_coordinates test_runtime (Finite 0) (Finite 0) = Inr ()"
    by (simp add: validate_coordinates_def)
  show ?thesis
    using v
      forecast_days_checked [of 0 test_runtime "always (Response 200 (Parsed FORECAST_RESPONSE))"
        module_client "Finite 0" "Finite 0" "[]"]
      forecast_days_checked [of 17 test_runtime "always (Response 200 (Parsed FORECAST_RESPONSE))"
        module_client "Finite 0" "Finite 0" "[]"]
      forecast_days_checked [of 1 test_runtime "always (Response 200 (Parsed FORECAST_RESPONSE))"
        module_client "Finite 0" "Finite 0" "[]"]
      forecast_days_checked [of 16 test_runtime "always (Response 200 (Parsed FORECAST_RESPONSE))"
        module_client "Finite 0" "Finite 0" "[]"]
    by simp
qed

text \<open>
  Claim C9. Constructing a \<open>WeatherLocation\<close> with latitude 52.52 and longitude 13.41
  succeeds, and reading back its two fields gives 52.52 and 13.41 unchanged.
\<close>

theorem weather_location_round_trip:
  "WeatherLocation_new (Finite 52.52) (Finite 13.41) =
     Inr \<lparr>latitude = Finite 52.52, longitude = Finite 13.41\<rparr>
   \<and> latitude (projr (WeatherLocation_new (Finite 52.52) (Finite 13.41))) = Finite 52.52
   \<and> longitude (projr (WeatherLocation_new (Finite 52.52) (Finite 13.41))) = Finite 13.41"
  by (simp add: WeatherLocation_new_def)


lemma WeatherLocation_new_Inr:
  "WeatherLocation_new lat lon = Inr loc \<Longrightarrow>
   loc = \<lparr>latitude = lat, longitude = lon\<rparr>
   \<and> fle (Finite (- 90)) lat \<and> fle lat (Finite 90)
   \<and> fle (Finite (- 180)) lon \<and> fle lon (Finite 180)"
  by (auto simp: WeatherLocation_new_def split: if_splits)

lemma and_then_Inr:
  "and_then m f = Inr y \<longleftrightarrow> (\<exists>x. m = Inr x \<and> f x = Inr y)"
  by (cases m) (simp_all add: and_then_def)

lemma forecast_Inr_location:
  "client_get_forecast lib up self lat lon days sent = (Inr fr, sent') \<Longrightarrow>
   WeatherLocation_new lat lon = Inr (location fr)"
  by (auto simp: client_get_forecast_def and_then_Inr split: sum.splits if_splits prod.splits)

text \<open>
  Claim C10. The model \<open>WeatherLocation\<close> enforces the bounds when it is constructed, by its
  own field constraints: the construction fails for a latitude outside \<open>[-90, 90]\<close> or a
  longitude outside \<open>[-180, 180]\<close>; every \<open>WeatherLocation\<close> the constructor returns
  satisfies the bounds, and so does the \<open>location\<close> of every \<open>ForecastResponse\<close> that
  \<open>get_forecast\<close> returns.
\<close>

theorem weather_location_bounds:
  "(\<not> (fle (Finite (- 90)) lat \<and> fle lat (Finite 90))
      \<or> \<not> (fle (Finite (- 180)) lon \<and> fle lon (Finite 180)) \<longrightarrow>
      isl (WeatherLocation_new lat lon))
   \<and> (WeatherLocation_new lat lon = Inr loc \<longrightarrow>
      fle (Finite (- 90)) (latitude loc) \<and> fle (latitude loc) (Finite 90)
      \<and> fle (Finite (- 180)) (longitude loc) \<and> fle (longitude loc) (Finite 180))
   \<and> (client_get_forecast lib up self lat lon days sent = (Inr fr, sent') \<longrightarrow>
      fle (Finite (- 90)) (latitude (location fr)) \<and> fle (latitude (location fr)) (Finite 90)
      \<and> fle (Finite (- 180)) (longitude (location fr))
      \<and> fle (longitude (location fr)) (Finite 180))"
proof (intro conjI impI)
  assume "\<not> (fle (Finite (- 90)) lat \<and> fle lat (Finite 90))
      \<or> \<not> (fle (Finite (- 180)) lon \<and> fle lon (Finite 180))"
  then show "isl (WeatherLocation_new lat lon)"
    by (auto simp: WeatherLocation_new_def)
next
  assume a: "WeatherLocation_new lat lon = Inr loc"
  from WeatherLocation_new_Inr [OF a]
  show "fle (Finite (- 90)) (latitude loc)" "fle (latitude loc) (Finite 90)"
    "fle (Finite (- 180)) (longitude loc)" "fle (longitude loc) (Finite 180)"
    by simp_all
next
  assume "client_get_forecast lib up self lat lon days sent = (Inr fr, sent')"
  from WeatherLocation_new_Inr [OF forecast_Inr_location [OF this]]
  show "fle (Finite (- 90)) (latitude (location fr))" "fle (latitude (location fr)) (Finite 90)"
    "fle (Finite (- 180)) (longitude (location fr))" "fle (longitude (location fr)) (Finite 180)"
    by simp_all
qed





lemma iso_date_fixture:
  "iso_date ''2025-06-15'' = Inr \<lparr>year = 2025, month = 6, day = 15\<rparr>"
  "iso_date ''2025-06-16'' = Inr \<lparr>year = 2025, month = 6, day = 16\<rparr>"
  "iso_date ''2025-06-17'' = Inr \<lparr>year = 2025, month = 6, day = 17\<rparr>"
  by (simp_all add: iso_date_def digits_nat_def days_in_month_def)

lemmas fixture_defs =
  client_get_forecast_def client_get_current_weather_def validate_coordinates_def
  client_get_def always_def is_success_def module_client_def OpenMeteoClient_init_def
  daily_forecast_at_def daily_item_def and_then_def test_runtime_def
  weather_code_to_conditions_def WMO_CODES_def WeatherLocation_new_def

lemma client_get_Inr:
  "client_get lib up self params sent = (Inr data, sent') \<Longrightarrow>
   \<exists>status. up sent \<lparr>req_url = OPEN_METEO_BASE, req_params = params,
                       req_timeout = timeout self\<rparr> = Response status (Parsed data)
     \<and> is_success status"
  by (auto simp: client_get_def Let_def and_then_def
      split: http_result.splits body.splits if_splits sum.splits)

lemma forecast_loop_Inr:
  "forecast_loop lib daily idx acc = Inr fs \<Longrightarrow>
   \<exists>gs. fs = acc @ gs \<and> map (daily_forecast_at lib daily) idx = map Inr gs"
proof (induction idx arbitrary: acc)
  case Nil
  then show ?case by simp
next
  case (Cons i rest)
  from Cons.prems obtain f where f: "daily_forecast_at lib daily i = Inr f"
    and loop: "forecast_loop lib daily rest (acc @ [f]) = Inr fs"
    by (auto split: sum.splits)
  from Cons.IH [OF loop] obtain gs where
    "fs = (acc @ [f]) @ gs" "map (daily_forecast_at lib daily) rest = map Inr gs"
    by blast
  with f have "fs = acc @ (f # gs) \<and>
      map (daily_forecast_at lib daily) (i # rest) = map Inr (f # gs)"
    by simp
  then show ?case by blast
qed

lemma forecast_loop_range:
  assumes "forecast_loop lib daily [0..<n] [] = Inr fs"
  shows "length fs = n" and "i < n \<Longrightarrow> daily_forecast_at lib daily i = Inr (fs ! i)"
proof -
  from forecast_loop_Inr [OF assms]
  have m: "map (daily_forecast_at lib daily) [0..<n] = map Inr fs" by simp
  from arg_cong [OF m, of length] show len: "length fs = n" by simp
  assume i: "i < n"
  from arg_cong [OF m, of "\<lambda>xs. xs ! i"] i len
  show "daily_forecast_at lib daily i = Inr (fs ! i)" by simp
qed

lemma forecast_Inr_unfold:
  assumes "client_get_forecast lib up self lat lon days sent = (Inr fr, sent')"
  shows "\<exists>status data daily tms.
      up sent \<lparr>req_url = OPEN_METEO_BASE, req_params = forecast_params lat lon days,
               req_timeout = timeout self\<rparr> = Response status (Parsed data)
      \<and> subscript_str data ''daily'' = Inr daily
      \<and> subscript_str daily ''time'' = Inr tms
      \<and> py_len tms = Inr (length (forecasts fr))
      \<and> forecast_loop lib daily [0..<length (forecasts fr)] [] = Inr (forecasts fr)"
proof -
  from assms obtain data where
    get: "client_get lib up self (forecast_params lat lon days) sent = (Inr data, sent')"
    and rest: "and_then (subscript_str data ''daily'') (\<lambda>daily.
                and_then (subscript_str daily ''time'') (\<lambda>tms.
                and_then (py_len tms) (\<lambda>n.
                and_then (forecast_loop lib daily [0..<n] []) (\<lambda>fs.
                and_then (WeatherLocation_new lat lon) (\<lambda>loc.
                  Inr \<lparr>location = loc, forecasts = fs\<rparr>))))) = Inr fr"
    by (auto simp: client_get_forecast_def split: sum.splits if_splits prod.splits)
  from rest obtain daily tms n fs loc where
    d: "subscript_str data ''daily'' = Inr daily"
    and t: "subscript_str daily ''time'' = Inr tms"
    and n: "py_len tms = Inr n"
    and l: "forecast_loop lib daily [0..<n] [] = Inr fs"
    and fr: "fr = \<lparr>location = loc, forecasts = fs\<rparr>"
    by (auto simp: and_then_Inr)
  from forecast_loop_range(1) [OF l] fr have len: "length (forecasts fr) = n" by simp
  from client_get_Inr [OF get] obtain status where
    "up sent \<lparr>req_url = OPEN_METEO_BASE, req_params = forecast_params lat lon days,
               req_timeout = timeout self\<rparr> = Response status (Parsed data)"
    by blast
  with d t n l fr len show ?thesis by auto
qed

lemma daily_forecast_at_Inr:
  assumes "daily_forecast_at lib (JObj daily) i = Inr f"
    and "map_of daily ''time'' = Some (JArr ts)"
    and "map_of daily ''temperature_2m_max'' = Some (JArr tmax)"
    and "map_of daily ''temperature_2m_min'' = Some (JArr tmin)"
    and "map_of daily ''precipitation_sum'' = Some (JArr prec)"
    and "map_of daily ''weather_code'' = Some (JArr codes)"
  shows "i < length ts \<and> i < length tmax \<and> i < length tmin \<and> i < length prec
      \<and> i < length codes
      \<and> py_date lib (ts ! i) = Inr (forecast_date f)
      \<and> py_float lib (tmin ! i) = Inr (temperature_min f)
      \<and> py_float lib (tmax ! i) = Inr (temperature_max f)
      \<and> py_float lib (prec ! i) = Inr (precipitation f)
      \<and> py_int lib (codes ! i) = Inr (weather_code f)
      \<and> conditions f = weather_code_to_conditions (weather_code f)"
  using assms
  by (auto simp: daily_forecast_at_def daily_item_def and_then_Inr split: if_splits)

lemma forecast_line_embeds:
  "sublist (float_str lib (temperature_min d)) (forecast_line lib d)"
  "sublist (float_str lib (temperature_max d)) (forecast_line lib d)"
  "sublist (conditions d) (forecast_line lib d)"
proof -
  have "forecast_line lib d =
      (''  '' @ str_date (forecast_date d) @ '': '' @ conditions d @ '' ''
       @ ''(WMO '' @ str_int (weather_code d) @ ''), '')
      @ float_str lib (temperature_min d)
      @ (degree_sign @ ''C '' @ en_dash @ '' ''
       @ float_str lib (temperature_max d) @ degree_sign @ ''C, ''
       @ ''Precipitation: '' @ float_str lib (precipitation d) @ '' mm'')"
    by (simp add: forecast_line_def)
  then show "sublist (float_str lib (temperature_min d)) (forecast_line lib d)"
    unfolding sublist_def by blast
  have "forecast_line lib d =
      (''  '' @ str_date (forecast_date d) @ '': '' @ conditions d @ '' ''
       @ ''(WMO '' @ str_int (weather_code d) @ ''), ''
       @ float_str lib (temperature_min d) @ degree_sign @ ''C '' @ en_dash @ '' '')
      @ float_str lib (temperature_max d)
      @ (degree_sign @ ''C, ''
       @ ''Precipitation: '' @ float_str lib (precipitation d) @ '' mm'')"
    by (simp add: forecast_line_def)
  then show "sublist (float_str lib (temperature_max d)) (forecast_line lib d)"
    unfolding sublist_def by blast
  have "forecast_line lib d =
      (''  '' @ str_date (forecast_date d) @ '': '')
      @ conditions d
      @ ('' '' @ ''(WMO '' @ str_int (weather_code d) @ ''), ''
       @ float_str lib (temperature_min d) @ degree_sign @ ''C '' @ en_dash @ '' ''
       @ float_str lib (temperature_max d) @ degree_sign @ ''C, ''
       @ ''Precipitation: '' @ float_str lib (precipitation d) @ '' mm'')"
    by (simp add: forecast_line_def)
  then show "sublist (conditions d) (forecast_line lib d)"
    unfolding sublist_def by blast
qed

lemma handler_forecast_success:
  "client_get_forecast lib up module_client lat lon days sent = (Inr fr, sent') \<Longrightarrow>
   fst (get_forecast lib up lat lon days sent) =
     join newline (forecast_header lib lat lon days # map (forecast_line lib) (forecasts fr))"
  by (simp add: get_forecast_def)


lemma fixture_forecast:
  "1 \<le> days \<Longrightarrow> days \<le> 16 \<Longrightarrow>
   client_get_forecast test_runtime (always (Response 200 (Parsed FORECAST_RESPONSE)))
     module_client (Finite 52.52) (Finite 13.41) days [] =
   (Inr \<lparr>location = \<lparr>latitude = Finite 52.52, longitude = Finite 13.41\<rparr>,
         forecasts = fixture_days\<rparr>,
    [\<lparr>req_url = OPEN_METEO_BASE,
      req_params = forecast_params (Finite 52.52) (Finite 13.41) days,
      req_timeout = 10\<rparr>])"
  by (simp add: fixture_defs FORECAST_RESPONSE_def iso_date_fixture upt_rec_numeral
      fixture_days_def)

lemma fixture_daily:
  "subscript_str FORECAST_RESPONSE ''daily'' =
     Inr (JObj [(''time'', JArr [JStr ''2025-06-15'', JStr ''2025-06-16'', JStr ''2025-06-17'']),
                (''temperature_2m_max'',
                   JArr [JFloat (Finite 25), JFloat (Finite 27), JFloat (Finite 23)]),
                (''temperature_2m_min'',
                   JArr [JFloat (Finite 15), JFloat (Finite 17), JFloat (Finite 14)]),
                (''precipitation_sum'',
                   JArr [JFloat (Finite 0), JFloat (Finite 2.5), JFloat (Finite 0.1)]),
                (''weather_code'', JArr [JInt 0, JInt 63, JInt 1])])"
  by (simp add: FORECAST_RESPONSE_def)

text \<open>
  Claim C6, as amended. For every successful call of the client method \<open>get_forecast\<close>, the
  \<open>forecasts\<close> of the result hold one \<open>DailyForecast\<close> for each index of
  \<open>daily["time"]\<close> of the response received, in that order: their number is
  \<open>len(daily["time"])\<close>, whatever \<open>days\<close> was requested.
\<close>

theorem forecast_length_is_time_length:
  assumes "client_get_forecast lib up self lat lon days sent = (Inr fr, sent')"
    and "up sent \<lparr>req_url = OPEN_METEO_BASE, req_params = forecast_params lat lon days,
                  req_timeout = timeout self\<rparr> = Response status (Parsed data)"
    and "subscript_str data ''daily'' = Inr daily"
    and "subscript_str daily ''time'' = Inr tms"
  shows "py_len tms = Inr (length (forecasts fr))
    \<and> (\<forall>i<length (forecasts fr). daily_forecast_at lib daily i = Inr (forecasts fr ! i))"
proof -
  from forecast_Inr_unfold [OF assms(1)] assms(2-4)
  have len: "py_len tms = Inr (length (forecasts fr))"
    and loop: "forecast_loop lib daily [0..<length (forecasts fr)] [] = Inr (forecasts fr)"
    by auto
  from len forecast_loop_range(2) [OF loop] show ?thesis by blast
qed

text \<open>The fixture of three days, requested with \<open>days = 7\<close>.\<close>

theorem forecast_length_is_time_length_witness:
  "py_len (JArr [JStr ''2025-06-15'', JStr ''2025-06-16'', JStr ''2025-06-17'']) =
     Inr (length (forecasts (projr (fst (client_get_forecast test_runtime
        (always (Response 200 (Parsed FORECAST_RESPONSE)))
        module_client (Finite 52.52) (Finite 13.41) 7 [])))))"
proof -
  have r: "always (Response 200 (Parsed FORECAST_RESPONSE)) []
      \<lparr>req_url = OPEN_METEO_BASE,
       req_params = forecast_params (Finite 52.52) (Finite 13.41) 7,
       req_timeout = timeout module_client\<rparr> = Response 200 (Parsed FORECAST_RESPONSE)"
    by (simp add: always_def)
  have t: "subscript_str
      (JObj [(''time'', JArr [JStr ''2025-06-15'', JStr ''2025-06-16'', JStr ''2025-06-17'']),
                (''temperature_2m_max'',
                   JArr [JFloat (Finite 25), JFloat (Finite 27), JFloat (Finite 23)]),
                (''temperature_2m_min'',
                   JArr [JFloat (Finite 15), JFloat (Finite 17), JFloat (Finite 14)]),
                (''precipitation_sum'',
                   JArr [JFloat (Finite 0), JFloat (Finite 2.5), JFloat (Finite 0.1)]),
                (''weather_code'', JArr [JInt 0, JInt 63, JInt 1])]) ''time'' =
      Inr (JArr [JStr ''2025-06-15'', JStr ''2025-06-16'', JStr ''2025-06-17''])"
    by simp
  have f: "client_get_forecast test_runtime (always (Response 200 (Parsed FORECAST_RESPONSE)))
     module_client (Finite 52.52) (Finite 13.41) 7 [] =
   (Inr \<lparr>location = \<lparr>latitude = Finite 52.52, longitude = Finite 13.41\<rparr>,
         forecasts = fixture_days\<rparr>,
    [\<lparr>req_url = OPEN_METEO_BASE,
      req_params = forecast_params (Finite 52.52) (Finite 13.41) 7,
      req_timeout = 10\<rparr>])"
    by (rule fixture_forecast) simp_all
  from forecast_length_is_time_length [OF f r fixture_daily t] f
  show ?thesis by simp
qed

text \<open>
  Claim C6 as stated fails: asked for 7 days, with the upstream answering the three days of
  the fixture, the call succeeds with 3 forecasts.
\<close>

theorem forecast_length_counterexample:
  "\<not> isl (fst (client_get_forecast test_runtime
        (always (Response 200 (Parsed FORECAST_RESPONSE)))
        module_client (Finite 52.52) (Finite 13.41) 7 []))
   \<and> length (forecasts (projr (fst (client_get_forecast test_runtime
        (always (Response 200 (Parsed FORECAST_RESPONSE)))
        module_client (Finite 52.52) (Finite 13.41) 7 [])))) = 3
   \<and> int (length (forecasts (projr (fst (client_get_forecast test_runtime
        (always (Response 200 (Parsed FORECAST_RESPONSE)))
        module_client (Finite 52.52) (Finite 13.41) 7 []))))) \<noteq> 7"
proof -
  have f: "client_get_forecast test_runtime (always (Response 200 (Parsed FORECAST_RESPONSE)))
     module_client (Finite 52.52) (Finite 13.41) 7 [] =
   (Inr \<lparr>location = \<lparr>latitude = Finite 52.52, longitude = Finite 13.41\<rparr>,
         forecasts = fixture_days\<rparr>,
    [\<lparr>req_url = OPEN_METEO_BASE,
      req_params = forecast_params (Finite 52.52) (Finite 13.41) 7,
      req_timeout = 10\<rparr>])"
    by (rule fixture_forecast) simp_all
  show ?thesis unfolding f by (simp add: fixture_days_def)
qed

text \<open>
  Claim C5. For every successful forecast response whose \<open>daily\<close> object holds the arrays
  \<open>time\<close>, \<open>temperature_2m_max\<close>, \<open>temperature_2m_min\<close>, \<open>precipitation_sum\<close> and
  \<open>weather_code\<close>, the client maps each index \<open>i\<close> of \<open>time\<close> to one \<open>DailyForecast\<close>,
  the \<open>i\<close>-th of the result, built from the \<open>i\<close>-th element of each array; and the output of
  the handler is the header followed by one line for each day in that order, each line holding
  the texts of the day's minimum temperature, its maximum temperature and its conditions.
\<close>

theorem forecast_days_follow_arrays:
  assumes "client_get_forecast lib up module_client lat lon days sent = (Inr fr, sent')"
    and "up sent \<lparr>req_url = OPEN_METEO_BASE, req_params = forecast_params lat lon days,
                  req_timeout = timeout module_client\<rparr> = Response status (Parsed data)"
    and "subscript_str data ''daily'' = Inr (JObj daily)"
    and "map_of daily ''time'' = Some (JArr ts)"
    and "map_of daily ''temperature_2m_max'' = Some (JArr tmax)"
    and "map_of daily ''temperature_2m_min'' = Some (JArr tmin)"
    and "map_of daily ''precipitation_sum'' = Some (JArr prec)"
    and "map_of daily ''weather_code'' = Some (JArr codes)"
  shows "length (forecasts fr) = length ts
    \<and> (\<forall>i<length ts.
          i < length tmax \<and> i < length tmin \<and> i < length prec \<and> i < length codes
          \<and> py_date lib (ts ! i) = Inr (forecast_date (forecasts fr ! i))
          \<and> py_float lib (tmin ! i) = Inr (temperature_min (forecasts fr ! i))
          \<and> py_float lib (tmax ! i) = Inr (temperature_max (forecasts fr ! i))
          \<and> py_float lib (prec ! i) = Inr (precipitation (forecasts fr ! i))
          \<and> py_int lib (codes ! i) = Inr (weather_code (forecasts fr ! i))
          \<and> conditions (forecasts fr ! i) =
              weather_code_to_conditions (weather_code (forecasts fr ! i)))
    \<and> fst (get_forecast lib up lat lon days sent) =
        join newline
          (forecast_header lib lat lon days # map (forecast_line lib) (forecasts fr))
    \<and> (\<forall>d \<in> set (forecasts fr).
          sublist (float_str lib (temperature_min d)) (forecast_line lib d)
          \<and> sublist (float_str lib (temperature_max d)) (forecast_line lib d)
          \<and> sublist (conditions d) (forecast_line lib d))"
proof -
  have t: "subscript_str (JObj daily) ''time'' = Inr (JArr ts)"
    using assms(4) by simp
  from forecast_Inr_unfold [OF assms(1)] assms(2,3) t
  have len: "py_len (JArr ts) = Inr (length (forecasts fr))"
    and loop: "forecast_loop lib (JObj daily) [0..<length (forecasts fr)] [] = Inr (forecasts fr)"
    by auto
  from len have n: "length (forecasts fr) = length ts" by simp
  have each: "i < length tmax \<and> i < length tmin \<and> i < length prec \<and> i < length codes
          \<and> py_date lib (ts ! i) = Inr (forecast_date (forecasts fr ! i))
          \<and> py_float lib (tmin ! i) = Inr (temperature_min (forecasts fr ! i))
          \<and> py_float lib (tmax ! i) = Inr (temperature_max (forecasts fr ! i))
          \<and> py_float lib (prec ! i) = Inr (precipitation (forecasts fr ! i))
          \<and> py_int lib (codes ! i) = Inr (weather_code (forecasts fr ! i))
          \<and> conditions (forecasts fr ! i) =
              weather_code_to_conditions (weather_code (forecasts fr ! i))"
    if "i < length ts" for i
  proof -
    from that n have "i < length (forecasts fr)" by simp
    from forecast_loop_range(2) [OF loop this]
    have "daily_forecast_at lib (JObj daily) i = Inr (forecasts fr ! i)" .
    from daily_forecast_at_Inr [OF this assms(4-8)] show ?thesis by simp
  qed
  from n each handler_forecast_success [OF assms(1)] forecast_line_embeds
  show ?thesis by blast
qed


text \<open>The response of three days of the test suite, and the text the handler returns
  for it.\<close>

theorem forecast_days_follow_arrays_witness:
  "length (forecasts (projr (fst (client_get_forecast test_runtime
        (always (Response 200 (Parsed FORECAST_RESPONSE)))
        module_client (Finite 52.52) (Finite 13.41) 3 [])))) = 3
   \<and> fst (get_forecast test_runtime (always (Response 200 (Parsed FORECAST_RESPONSE)))
        (Finite 52.52) (Finite 13.41) 3 []) =
      ''Weather forecast for (52.52, 13.41) '' @ en_dash @ '' 3 day(s):'' @ newline @ newline
      @ ''  2025-06-15: Clear sky (WMO 0), 15.0'' @ degree_sign @ ''C '' @ en_dash
      @ '' 25.0'' @ degree_sign @ ''C, Precipitation: 0.0 mm'' @ newline
      @ ''  2025-06-16: Moderate rain (WMO 63), 17.0'' @ degree_sign @ ''C '' @ en_dash
      @ '' 27.0'' @ degree_sign @ ''C, Precipitation: 2.5 mm'' @ newline
      @ ''  2025-06-17: Mainly clear (WMO 1), 14.0'' @ degree_sign @ ''C '' @ en_dash
      @ '' 23.0'' @ degree_sign @ ''C, Precipitation: 0.1 mm''"
proof -
  have r: "always (Response 200 (Parsed FORECAST_RESPONSE)) []
      \<lparr>req_url = OPEN_METEO_BASE,
       req_params = forecast_params (Finite 52.52) (Finite 13.41) 3,
       req_timeout = timeout module_client\<rparr> = Response 200 (Parsed FORECAST_RESPONSE)"
    by (simp add: always_def)
  have f: "client_get_forecast test_runtime (always (Response 200 (Parsed FORECAST_RESPONSE)))
     module_client (Finite 52.52) (Finite 13.41) 3 [] =
   (Inr \<lparr>location = \<lparr>latitude = Finite 52.52, longitude = Finite 13.41\<rparr>,
         forecasts = fixture_days\<rparr>,
    [\<lparr>req_url = OPEN_METEO_BASE,
      req_params = forecast_params (Finite 52.52) (Finite 13.41) 3,
      req_timeout = 10\<rparr>])"
    by (rule fixture_forecast) simp_all
  note w = forecast_days_follow_arrays [OF f r fixture_daily, of
      "[JStr ''2025-06-15'', JStr ''2025-06-16'', JStr ''2025-06-17'']"
      "[JFloat (Finite 25), JFloat (Finite 27), JFloat (Finite 23)]"
      "[JFloat (Finite 15), JFloat (Finite 17), JFloat (Finite 14)]"
      "[JFloat (Finite 0), JFloat (Finite 2.5), JFloat (Finite 0.1)]"
      "[JInt 0, JInt 63, JInt 1]"]
  have len: "length (forecasts (projr (fst (client_get_forecast test_runtime
        (always (Response 200 (Parsed FORECAST_RESPONSE)))
        module_client (Finite 52.52) (Finite 13.41) 3 [])))) = 3"
    using w f by simp
  have out: "fst (get_forecast test_runtime (always (Response 200 (Parsed FORECAST_RESPONSE)))
        (Finite 52.52) (Finite 13.41) 3 []) =
      join newline (forecast_header test_runtime (Finite 52.52) (Finite 13.41) 3
        # map (forecast_line test_runtime) fixture_days)"
    using w by simp
  have shown: "join newline (forecast_header test_runtime (Finite 52.52) (Finite 13.41) 3
        # map (forecast_line test_runtime) fixture_days) =
      ''Weather forecast for (52.52, 13.41) '' @ en_dash @ '' 3 day(s):'' @ newline @ newline
      @ ''  2025-06-15: Clear sky (WMO 0), 15.0'' @ degree_sign @ ''C '' @ en_dash
      @ '' 25.0'' @ degree_sign @ ''C, Precipitation: 0.0 mm'' @ newline
      @ ''  2025-06-16: Moderate rain (WMO 63), 17.0'' @ degree_sign @ ''C '' @ en_dash
      @ '' 27.0'' @ degree_sign @ ''C, Precipitation: 2.5 mm'' @ newline
      @ ''  2025-06-17: Mainly clear (WMO 1), 14.0'' @ degree_sign @ ''C '' @ en_dash
      @ '' 23.0'' @ degree_sign @ ''C, Precipitation: 0.1 mm''"
    by code_simp
  from len out shown show ?thesis by simp
qed

text \<open>Latitude 100 and longitude -181 are refused; the location built from
  \<open>(52.52, 13.41)\<close>, by the constructor and by \<open>get_forecast\<close>, is within the bounds.\<close>

theorem weather_location_bounds_witness:
  "isl (WeatherLocation_new (Finite 100) (Finite 0))
   \<and> isl (WeatherLocation_new (Finite 0) (Finite (- 181)))
   \<and> fle (latitude (projr (WeatherLocation_new (Finite 52.52) (Finite 13.41)))) (Finite 90)
   \<and> fle (Finite (- 180)) (longitude (location (projr (fst (client_get_forecast test_runtime
        (always (Response 200 (Parsed FORECAST_RESPONSE)))
        module_client (Finite 52.52) (Finite 13.41) 3 [])))))"
proof -
  have f: "client_get_forecast test_runtime (always (Response 200 (Parsed FORECAST_RESPONSE)))
     module_client (Finite 52.52) (Finite 13.41) 3 [] =
   (Inr \<lparr>location = \<lparr>latitude = Finite 52.52, longitude = Finite 13.41\<rparr>,
         forecasts = fixture_days\<rparr>,
    [\<lparr>req_url = OPEN_METEO_BASE,
      req_params = forecast_params (Finite 52.52) (Finite 13.41) 3,
      req_timeout = 10\<rparr>])"
    by (rule fixture_forecast) simp_all
  have n: "WeatherLocation_new (Finite 52.52) (Finite 13.41) =
      Inr \<lparr>latitude = Finite 52.52, longitude = Finite 13.41\<rparr>"
    by (simp add: WeatherLocation_new_def)
  have a: "isl (WeatherLocation_new (Finite 100) (Finite 0))"
    using weather_location_bounds [of "Finite 100" "Finite 0"] by simp
  have b: "isl (WeatherLocation_new (Finite 0) (Finite (- 181)))"
    using weather_location_bounds [of "Finite 0" "Finite (- 181)"] by simp
  have c: "fle (latitude (projr (WeatherLocation_new (Finite 52.52) (Finite 13.41)))) (Finite 90)"
    using weather_location_bounds [of "Finite 52.52" "Finite 13.41"
        "\<lparr>latitude = Finite 52.52, longitude = Finite 13.41\<rparr>"] n
    by simp
  have d: "fle (Finite (- 180)) (longitude (location (projr (fst (client_get_forecast
        test_runtime (always (Response 200 (Parsed FORECAST_RESPONSE)))
        module_client (Finite 52.52) (Finite 13.41) 3 [])))))"
    using weather_location_bounds [of "Finite 52.52" "Finite 13.41" _ test_runtime
        "always (Response 200 (Parsed FORECAST_RESPONSE))" module_client 3 "[]"
        "\<lparr>location = \<lparr>latitude = Finite 52.52, longitude = Finite 13.41\<rparr>,
         forecasts = fixture_days\<rparr>"] f
    by simp
  from a b c d show ?thesis by simp
qed








lemma client_get_api_error:
  assumes "up sent \<lparr>req_url = OPEN_METEO_BASE, req_params = params,
                    req_timeout = timeout self\<rparr> = Response status (Parsed (JObj kv))"
    and "map_of kv ''error'' = Some err" and "truthy err"
  shows "fst (client_get lib up self params sent) =
     (if is_success status
      then Inl (RuntimeError (''Open-Meteo API error: ''
             @ py_str lib (case map_of kv ''reason'' of Some r \<Rightarrow> r | None \<Rightarrow> JStr ''unknown'')))
      else Inl (HTTPStatusError status))"
  using assms by (simp add: client_get_def Let_def and_then_def)

lemma current_weather_get_error:
  "validate_coordinates lib lat lon = Inr () \<Longrightarrow>
   fst (client_get lib up self (current_params lat lon) sent) = Inl e \<Longrightarrow>
   fst (client_get_current_weather lib up self lat lon sent) = Inl e"
  by (auto simp: client_get_current_weather_def split: prod.splits sum.splits)

lemma forecast_get_error:
  "validate_coordinates lib lat lon = Inr () \<Longrightarrow> 1 \<le> days \<Longrightarrow> days \<le> 16 \<Longrightarrow>
   fst (client_get lib up self (forecast_params lat lon days) sent) = Inl e \<Longrightarrow>
   fst (client_get_forecast lib up self lat lon days sent) = Inl e"
  by (auto simp: client_get_forecast_def split: prod.splits sum.splits)

text \<open>
  Claim C7, as amended. For every response with a status in 200..299 whose JSON object has a
  true \<open>error\<close> field, both client methods, called with valid arguments, fail with the
  \<open>RuntimeError\<close> whose message is "Open-Meteo API error: " followed by the reason (or by
  "unknown" when the body has no \<open>reason\<close>); for every other status they fail with the
  HTTP-status error, whatever the body holds.
\<close>

theorem api_error_raised_on_success_status:
  assumes "validate_coordinates lib lat lon = Inr ()" and "1 \<le> days" and "days \<le> 16"
    and "up sent \<lparr>req_url = OPEN_METEO_BASE, req_params = current_params lat lon,
                  req_timeout = timeout self\<rparr> = Response status (Parsed (JObj kv))"
    and "up sent \<lparr>req_url = OPEN_METEO_BASE, req_params = forecast_params lat lon days,
                  req_timeout = timeout self\<rparr> = Response status (Parsed (JObj kv))"
    and "map_of kv ''error'' = Some err" and "truthy err"
  shows "fst (client_get_current_weather lib up self lat lon sent) =
       (if 200 \<le> status \<and> status \<le> 299
        then Inl (RuntimeError (''Open-Meteo API error: ''
               @ py_str lib (case map_of kv ''reason'' of Some r \<Rightarrow> r | None \<Rightarrow> JStr ''unknown'')))
        else Inl (HTTPStatusError status))
     \<and> fst (client_get_forecast lib up self lat lon days sent) =
       (if 200 \<le> status \<and> status \<le> 299
        then Inl (RuntimeError (''Open-Meteo API error: ''
               @ py_str lib (case map_of kv ''reason'' of Some r \<Rightarrow> r | None \<Rightarrow> JStr ''unknown'')))
        else Inl (HTTPStatusError status))"
proof -
  have c: "fst (client_get lib up self (current_params lat lon) sent) =
       (if 200 \<le> status \<and> status \<le> 299
        then Inl (RuntimeError (''Open-Meteo API error: ''
               @ py_str lib (case map_of kv ''reason'' of Some r \<Rightarrow> r | None \<Rightarrow> JStr ''unknown'')))
        else Inl (HTTPStatusError status))"
    using client_get_api_error [where up = up and sent = sent and self = self and lib = lib
        and params = "current_params lat lon" and status = status and kv = kv and err = err]
      assms(4,6,7)
    by (simp add: is_success_def)
  have f: "fst (client_get lib up self (forecast_params lat lon days) sent) =
       (if 200 \<le> status \<and> status \<le> 299
        then Inl (RuntimeError (''Open-Meteo API error: ''
               @ py_str lib (case map_of kv ''reason'' of Some r \<Rightarrow> r | None \<Rightarrow> JStr ''unknown'')))
        else Inl (HTTPStatusError status))"
    using client_get_api_error [where up = up and sent = sent and self = self and lib = lib
        and params = "forecast_params lat lon days" and status = status and kv = kv
        and err = err]
      assms(5,6,7)
    by (simp add: is_success_def)
  show ?thesis
  proof (cases "200 \<le> status \<and> status \<le> 299")
    case True
    with c f current_weather_get_error [OF assms(1)] forecast_get_error [OF assms(1-3)]
    show ?thesis by simp
  next
    case False
    with c f current_weather_get_error [OF assms(1)] forecast_get_error [OF assms(1-3)]
    show ?thesis by simp
  qed
qed

text \<open>The error envelope with status 200.\<close>

theorem api_error_raised_on_success_status_witness:
  "fst (client_get_current_weather test_runtime
      (always (Response 200 (Parsed (JObj [(''error'', JBool True),
                                           (''reason'', JStr ''Invalid timezone'')]))))
      module_client (Finite 52.52) (Finite 13.41) []) =
     Inl (RuntimeError ''Open-Meteo API error: Invalid timezone'')
   \<and> fst (client_get_forecast test_runtime
      (always (Response 200 (Parsed (JObj [(''error'', JBool True),
                                           (''reason'', JStr ''Invalid timezone'')]))))
      module_client (Finite 52.52) (Finite 13.41) 7 []) =
     Inl (RuntimeError ''Open-Meteo API error: Invalid timezone'')"
proof -
  have v: "validate_coordinates test_runtime (Finite 52.52) (Finite 13.41) = Inr ()"
    by (simp add: validate_coordinates_def)
  show ?thesis
    using api_error_raised_on_success_status [where lib = test_runtime
        and up = "always (Response 200 (Parsed (JObj [(''error'', JBool True),
                                           (''reason'', JStr ''Invalid timezone'')])))"
        and self = module_client and lat = "Finite 52.52" and lon = "Finite 13.41"
        and days = 7 and sent = "[]" and status = 200
        and kv = "[(''error'', JBool True), (''reason'', JStr ''Invalid timezone'')]"
        and err = "JBool True", OF v]
    by (simp add: always_def)
qed

text \<open>
  Claim C7 as stated fails: a response of status 400 whose body is the error envelope makes
  both client methods fail with the HTTP-status error, not with the upstream error that
  embeds the reason. \<open>raise_for_status\<close> runs before the body is read.
\<close>

theorem api_error_counterexample:
  "fst (client_get_current_weather test_runtime
      (always (Response 400 (Parsed (JObj [(''error'', JBool True),
                                           (''reason'', JStr ''Invalid timezone'')]))))
      module_client (Finite 52.52) (Finite 13.41) []) = Inl (HTTPStatusError 400)
   \<and> fst (client_get_forecast test_runtime
      (always (Response 400 (Parsed (JObj [(''error'', JBool True),
                                           (''reason'', JStr ''Invalid timezone'')]))))
      module_client (Finite 52.52) (Finite 13.41) 7 []) = Inl (HTTPStatusError 400)
   \<and> fst (client_get_current_weather test_runtime
      (always (Response 400 (Parsed (JObj [(''error'', JBool True),
                                           (''reason'', JStr ''Invalid timezone'')]))))
      module_client (Finite 52.52) (Finite 13.41) []) \<noteq>
     Inl (RuntimeError ''Open-Meteo API error: Invalid timezone'')"
  by (simp add: client_get_current_weather_def client_get_forecast_def
      validate_coordinates_def client_get_def always_def is_success_def Let_def)

lemma snd_current_weather_invalid:
  "validate_coordinates lib lat lon \<noteq> Inr () \<Longrightarrow>
   snd (client_get_current_weather lib up self lat lon sent) = sent"
  using validate_coordinates_cases [of lib lat lon] current_weather_invalid [of lib lat lon]
  by auto

lemma snd_forecast_invalid:
  "\<not> (validate_coordinates lib lat lon = Inr () \<and> 1 \<le> days \<and> days \<le> 16) \<Longrightarrow>
   snd (client_get_forecast lib up self lat lon days sent) = sent"
  using validate_coordinates_cases [of lib lat lon] forecast_invalid [of lib lat lon]
    forecast_invalid_days [of lib lat lon "()" days]
  by auto

lemma snd_handlers:
  "snd (get_current_weather lib up lat lon sent) =
     snd (client_get_current_weather lib up module_client lat lon sent)"
  "snd (get_forecast lib up lat lon days sent) =
     snd (client_get_forecast lib up module_client lat lon days sent)"
  by (auto simp: get_current_weather_def get_forecast_def split: prod.splits sum.splits)

text \<open>
  Claim C8, as amended. Every invocation of \<open>get_current_weather\<close> or \<open>get_forecast\<close>
  whose arguments pass validation sends exactly one GET request, with the client's timeout of
  10 seconds, whatever the upstream answers: a failing request is not sent again, although
  \<open>MAX_RETRIES\<close> and \<open>RETRY_BACKOFF\<close> are declared. An invocation whose arguments fail
  validation sends none. The handlers send what the client methods send.
\<close>

theorem one_request_when_valid:
  "snd (client_get_current_weather lib up module_client lat lon sent) =
     (if validate_coordinates lib lat lon = Inr ()
      then sent @ [\<lparr>req_url = OPEN_METEO_BASE, req_params = current_params lat lon,
                    req_timeout = 10\<rparr>]
      else sent)
   \<and> snd (client_get_forecast lib up module_client lat lon days sent) =
     (if validate_coordinates lib lat lon = Inr () \<and> 1 \<le> days \<and> days \<le> 16
      then sent @ [\<lparr>req_url = OPEN_METEO_BASE, req_params = forecast_params lat lon days,
                    req_timeout = 10\<rparr>]
      else sent)
   \<and> snd (get_current_weather lib up lat lon sent) =
       snd (client_get_current_weather lib up module_client lat lon sent)
   \<and> snd (get_forecast lib up lat lon days sent) =
       snd (client_get_forecast lib up module_client lat lon days sent)
   \<and> MAX_RETRIES = 3 \<and> RETRY_BACKOFF = 1 / 2"
proof -
  have t: "timeout module_client = 10"
    by (simp add: module_client_def OpenMeteoClient_init_def)
  have c: "snd (client_get_current_weather lib up module_client lat lon sent) =
     (if validate_coordinates lib lat lon = Inr ()
      then sent @ [\<lparr>req_url = OPEN_METEO_BASE, req_params = current_params lat lon,
                    req_timeout = 10\<rparr>]
      else sent)"
    using snd_current_weather_valid [of lib lat lon "()" up module_client sent]
      snd_current_weather_invalid [of lib lat lon up module_client sent] t
    by simp
  have f: "snd (client_get_forecast lib up module_client lat lon days sent) =
     (if validate_coordinates lib lat lon = Inr () \<and> 1 \<le> days \<and> days \<le> 16
      then sent @ [\<lparr>req_url = OPEN_METEO_BASE, req_params = forecast_params lat lon days,
                    req_timeout = 10\<rparr>]
      else sent)"
    using snd_forecast_valid [of lib lat lon "()" days up module_client sent]
      snd_forecast_invalid [of lib lat lon days up module_client sent] t
    by simp
  have k: "MAX_RETRIES = 3 \<and> RETRY_BACKOFF = 1 / 2"
    by (simp add: MAX_RETRIES_def RETRY_BACKOFF_def)
  from c f k snd_handlers(1) [of lib up lat lon sent]
    snd_handlers(2) [of lib up lat lon days sent]
  show ?thesis by simp
qed

text \<open>A transport failure and a status 503: one request each.\<close>

theorem one_request_when_valid_witness:
  "snd (get_current_weather test_runtime (always (TransportFailure ''timed out''))
      (Finite 52.52) (Finite 13.41) []) =
     [\<lparr>req_url = OPEN_METEO_BASE, req_params = current_params (Finite 52.52) (Finite 13.41),
       req_timeout = 10\<rparr>]
   \<and> snd (get_forecast test_runtime (always (Response 503 (Malformed [])))
      (Finite 52.52) (Finite 13.41) 7 []) =
     [\<lparr>req_url = OPEN_METEO_BASE,
       req_params = forecast_params (Finite 52.52) (Finite 13.41) 7,
       req_timeout = 10\<rparr>]"
proof -
  have v: "validate_coordinates test_runtime (Finite 52.52) (Finite 13.41) = Inr ()"
    by (simp add: validate_coordinates_def)
  show ?thesis
    using v
      one_request_when_valid [of test_runtime "always (TransportFailure ''timed out'')"
        "Finite 52.52" "Finite 13.41" "[]" 7]
      one_request_when_valid [of test_runtime "always (Response 503 (Malformed []))"
        "Finite 52.52" "Finite 13.41" "[]" 7]
    by simp
qed

text \<open>
  Claim C8 as stated fails: with latitude 100, or with \<open>days = 0\<close>, no request is sent.
\<close>

theorem one_request_counterexample:
  "snd (client_get_current_weather test_runtime
      (always (Response 200 (Parsed CURRENT_WEATHER_RESPONSE)))
      module_client (Finite 100) (Finite 0) []) = []
   \<and> snd (get_current_weather test_runtime
      (always (Response 200 (Parsed CURRENT_WEATHER_RESPONSE))) (Finite 100) (Finite 0) []) = []
   \<and> length (snd (get_forecast test_runtime
      (always (Response 200 (Parsed FORECAST_RESPONSE))) (Finite 0) (Finite 0) 0 [])) \<noteq> 1"
  by (simp add: get_current_weather_def get_forecast_def client_get_current_weather_def
      client_get_forecast_def validate_coordinates_def)

end
